theory Spec2Isabelle
  imports Main
begin

section \<open>Values, configuration objects and the store\<close>

text \<open>
  The service is written in TypeScript and its constructor parameter has type \<open>any\<close>, so
  the held configuration is an arbitrary JavaScript value: \<open>undefined\<close>, \<open>null\<close>, a
  primitive, or a reference to an object that the caller owns and may share.
  Numbers are carried opaquely (the service never computes with them).
\<close>

type_synonym addr = nat

type_synonym fid = nat

datatype jsval =
    JSUndefined
  | JSNull
  | JSBoolean bool
  | JSNumber int
  | JSString string
  | JSObject addr

text \<open>
  What an accessor can throw: the TypeError of the language itself, or whatever value the
  code of a configuration object throws.
\<close>

datatype error = TypeError | Thrown jsval

text \<open>
  A property is a data property (its value, and whether it is writable) or an accessor
  property (its getter and its setter, either of which may be missing). The functions are
  named by an identifier and looked up in the table of the world.
\<close>

datatype property =
    Data jsval bool
  | Accessor "fid option" "fid option"

text \<open>
  An object, as a member access sees it: its own properties by key, the properties its
  prototype chain provides, and whether properties can be added to it. A frozen object is
  not extensible and has no writable property; a key in neither map is a property the
  object does not have, which is not the same as a property holding \<open>undefined\<close>.
\<close>

record obj =
  own :: "string \<rightharpoonup> property"
  inherited :: "string \<rightharpoonup> property"
  extensible :: bool

type_synonym store = "addr \<Rightarrow> obj"

text \<open>
  A function of the caller's code (a getter or a setter of a configuration object), given
  by what it does: called on a receiver with arguments, it returns or throws, and leaves
  the objects changed as it pleases.
\<close>

type_synonym jsfun = "addr \<Rightarrow> jsval list \<Rightarrow> store \<Rightarrow> (error + jsval) \<times> store"

text \<open>
  \<open>private readonly injectedConfig: any\<close>: the one field of an instance.
\<close>

record ExampleService =
  injectedConfig :: jsval

text \<open>
  The world the accessors run in: the objects reachable through references, the functions
  of the caller's code, the instances constructed so far (an instance is named by its
  position), and what the service has written to the console.
\<close>

record world =
  heap :: store
  funs :: "fid \<Rightarrow> jsfun"
  instances :: "ExampleService list"
  console :: "jsval list"

section \<open>Member access\<close>

text \<open>
  Looking a key up: the object's own property, else the inherited one.
\<close>

definition lookup_property :: "obj \<Rightarrow> string \<Rightarrow> property option" where
  "lookup_property ob k = (case own ob k of Some p \<Rightarrow> Some p | None \<Rightarrow> inherited ob k)"

text \<open>
  Reading the property found: a data property yields its value, an accessor property runs
  its getter on the object, and a missing property or a missing getter yields
  \<open>undefined\<close>.
\<close>

fun get_found :: "(fid \<Rightarrow> jsfun) \<Rightarrow> store \<Rightarrow> addr \<Rightarrow> property option \<Rightarrow> (error + jsval) \<times> store" where
  "get_found fs h a None = (Inr JSUndefined, h)"
| "get_found fs h a (Some (Data v wr)) = (Inr v, h)"
| "get_found fs h a (Some (Accessor None s)) = (Inr JSUndefined, h)"
| "get_found fs h a (Some (Accessor (Some g) s)) = fs g a [] h"

definition object_get :: "(fid \<Rightarrow> jsfun) \<Rightarrow> store \<Rightarrow> addr \<Rightarrow> string \<Rightarrow> (error + jsval) \<times> store" where
  "object_get fs h a k = get_found fs h a (lookup_property (h a) k)"

text \<open>
  The expression \<open>x.exampleOption\<close>. On \<open>undefined\<close> and \<open>null\<close> it throws a
  TypeError. On an object it reads the property. On a primitive the lookup goes to the
  wrapper prototype, which has no such property.
\<close>

fun read_exampleOption :: "(fid \<Rightarrow> jsfun) \<Rightarrow> store \<Rightarrow> jsval \<Rightarrow> (error + jsval) \<times> store" where
  "read_exampleOption fs h JSUndefined = (Inl TypeError, h)"
| "read_exampleOption fs h JSNull = (Inl TypeError, h)"
| "read_exampleOption fs h (JSObject a) = object_get fs h a ''exampleOption''"
| "read_exampleOption fs h (JSBoolean b) = (Inr JSUndefined, h)"
| "read_exampleOption fs h (JSNumber n) = (Inr JSUndefined, h)"
| "read_exampleOption fs h (JSString s) = (Inr JSUndefined, h)"

text \<open>
  What an assignment to a key of an object does: it stores the value in an own data
  property, it is refused, or it calls a setter.
\<close>

datatype target = Store | Refuse | Call fid

fun property_target :: "property \<Rightarrow> target" where
  "property_target (Data v wr) = (if wr then Store else Refuse)"
| "property_target (Accessor g None) = Refuse"
| "property_target (Accessor g (Some f)) = Call f"

text \<open>
  An own property decides by itself. Otherwise an inherited accessor or an inherited
  read-only data property decides, and in every other case the assignment creates an own
  property, which needs an extensible object.
\<close>

definition assignment_target :: "obj \<Rightarrow> string \<Rightarrow> target" where
  "assignment_target ob k =
     (case own ob k of
        Some p \<Rightarrow> property_target p
      | None \<Rightarrow>
          (case (case inherited ob k of None \<Rightarrow> Store | Some p \<Rightarrow> property_target p) of
             Store \<Rightarrow> (if extensible ob then Store else Refuse)
           | Refuse \<Rightarrow> Refuse
           | Call f \<Rightarrow> Call f))"

definition store_own :: "store \<Rightarrow> addr \<Rightarrow> string \<Rightarrow> jsval \<Rightarrow> store" where
  "store_own h a k v = h(a := (h a)\<lparr>own := (own (h a))(k \<mapsto> Data v True)\<rparr>)"

text \<open>
  The assignment, in strict code (the file is a module and the statement is in a class
  body): a refused assignment throws a TypeError, and what a setter returns is dropped.
\<close>

fun perform_assignment ::
  "(fid \<Rightarrow> jsfun) \<Rightarrow> store \<Rightarrow> addr \<Rightarrow> string \<Rightarrow> jsval \<Rightarrow> target \<Rightarrow> (error + unit) \<times> store" where
  "perform_assignment fs h a k v Store = (Inr (), store_own h a k v)"
| "perform_assignment fs h a k v Refuse = (Inl TypeError, h)"
| "perform_assignment fs h a k v (Call f) =
     (case fs f a [v] h of (r, h') \<Rightarrow> (map_sum id (\<lambda>_. ()) r, h'))"

definition object_set ::
  "(fid \<Rightarrow> jsfun) \<Rightarrow> store \<Rightarrow> addr \<Rightarrow> string \<Rightarrow> jsval \<Rightarrow> (error + unit) \<times> store" where
  "object_set fs h a k v = perform_assignment fs h a k v (assignment_target (h a) k)"

text \<open>
  The statement \<open>x.exampleOption = v\<close>. On \<open>undefined\<close> and \<open>null\<close> it throws a
  TypeError; on an object it assigns; a property cannot be created on a primitive.
\<close>

fun write_exampleOption ::
  "(fid \<Rightarrow> jsfun) \<Rightarrow> store \<Rightarrow> jsval \<Rightarrow> jsval \<Rightarrow> (error + unit) \<times> store" where
  "write_exampleOption fs h JSUndefined v = (Inl TypeError, h)"
| "write_exampleOption fs h JSNull v = (Inl TypeError, h)"
| "write_exampleOption fs h (JSObject a) v = object_set fs h a ''exampleOption'' v"
| "write_exampleOption fs h (JSBoolean b) v = (Inl TypeError, h)"
| "write_exampleOption fs h (JSNumber n) v = (Inl TypeError, h)"
| "write_exampleOption fs h (JSString s) v = (Inl TypeError, h)"

text \<open>
  The expression \<open>this.injectedConfig\<close>. A receiver that is not a constructed instance has
  no such field, and reading a field an object does not have yields \<open>undefined\<close>.
\<close>

definition this_injectedConfig :: "world \<Rightarrow> nat \<Rightarrow> jsval" where
  "this_injectedConfig w this =
     (if this < length (instances w) then injectedConfig (instances w ! this)
      else JSUndefined)"

section \<open>The service (compodoc-issue-check.service.ts)\<close>

text \<open>
  \<open>constructor(@Optional() @Inject(ConfigurationToken) private readonly injectedConfig: any)
  { console.log(this.injectedConfig); }\<close>
  The parameter property stores the argument in the new instance, then the body logs it.
\<close>

definition ExampleService_new :: "jsval \<Rightarrow> world \<Rightarrow> nat \<times> world" where
  "ExampleService_new config w =
     (let this = length (instances w);
          w1 = w\<lparr>instances := instances w @ [\<lparr>injectedConfig = config\<rparr>]\<rparr>;
          w2 = w1\<lparr>console := console w1 @ [this_injectedConfig w1 this]\<rparr>
      in (this, w2))"

text \<open>
  \<open>get exampleOption(): string { return this.injectedConfig.exampleOption; }\<close>
  An operation yields what the caller sees (the value, or the error thrown) and the world
  it leaves behind.
\<close>

definition exampleOption_get :: "nat \<Rightarrow> world \<Rightarrow> (error + jsval) \<times> world" where
  "exampleOption_get this w =
     (case read_exampleOption (funs w) (heap w) (this_injectedConfig w this) of
        (r, h') \<Rightarrow> (r, w\<lparr>heap := h'\<rparr>))"

text \<open>
  \<open>set exampleOption(value: string) { this.injectedConfig.exampleOption = value; }\<close>
\<close>

definition exampleOption_set :: "nat \<Rightarrow> jsval \<Rightarrow> world \<Rightarrow> (error + unit) \<times> world" where
  "exampleOption_set this v w =
     (case write_exampleOption (funs w) (heap w) (this_injectedConfig w this) v of
        (r, h') \<Rightarrow> (r, w\<lparr>heap := h'\<rparr>))"

text \<open>
  \<open>getExampleOption(): string { return this.exampleOption; }\<close>
\<close>

definition getExampleOption :: "nat \<Rightarrow> world \<Rightarrow> (error + jsval) \<times> world" where
  "getExampleOption this w = exampleOption_get this w"

section \<open>The service of the second file (part_000)\<close>

text \<open>
  The second file declares the class with the constructor and the getter only.
\<close>

definition part_000_ExampleService_new :: "jsval \<Rightarrow> world \<Rightarrow> nat \<times> world" where
  "part_000_ExampleService_new config w =
     (let this = length (instances w);
          w1 = w\<lparr>instances := instances w @ [\<lparr>injectedConfig = config\<rparr>]\<rparr>;
          w2 = w1\<lparr>console := console w1 @ [this_injectedConfig w1 this]\<rparr>
      in (this, w2))"

definition part_000_exampleOption_get :: "nat \<Rightarrow> world \<Rightarrow> (error + jsval) \<times> world" where
  "part_000_exampleOption_get this w =
     (case read_exampleOption (funs w) (heap w) (this_injectedConfig w this) of
        (r, h') \<Rightarrow> (r, w\<lparr>heap := h'\<rparr>))"

section \<open>Callers\<close>

text \<open>
  A caller invokes the accessors of the instances in some order, catching what they throw.
  The setter returns nothing, so a successful write yields \<open>undefined\<close>.
\<close>

datatype call = Read | Write jsval | ReadMethod

fun invoke :: "nat \<Rightarrow> call \<Rightarrow> world \<Rightarrow> (error + jsval) \<times> world" where
  "invoke this Read w = exampleOption_get this w"
| "invoke this (Write v) w =
     (case exampleOption_set this v w of (r, w') \<Rightarrow> (map_sum id (\<lambda>_. JSUndefined) r, w'))"
| "invoke this ReadMethod w = getExampleOption this w"

fun invoke_all :: "(nat \<times> call) list \<Rightarrow> world \<Rightarrow> (error + jsval) list \<times> world" where
  "invoke_all [] w = ([], w)"
| "invoke_all ((this, c) # cs) w =
     (case invoke this c w of (r, w') \<Rightarrow>
        (case invoke_all cs w' of (rs, w'') \<Rightarrow> (r # rs, w'')))"

section \<open>When an accessor runs code of the configuration object\<close>

text \<open>
  A read through an instance runs a getter of the held configuration exactly when the
  configuration is an object whose \<open>exampleOption\<close>, as looked up, is an accessor property
  that has a getter.
\<close>

fun has_getter :: "property option \<Rightarrow> bool" where
  "has_getter (Some (Accessor (Some g) s)) = True"
| "has_getter p = False"

fun read_runs_getter :: "store \<Rightarrow> jsval \<Rightarrow> bool" where
  "read_runs_getter h (JSObject a) = has_getter (lookup_property (h a) ''exampleOption'')"
| "read_runs_getter h c = False"

text \<open>
  A write through an instance runs a setter of the held configuration exactly when the
  assignment to \<open>exampleOption\<close> of the object is a call.
\<close>

fun is_call :: "target \<Rightarrow> bool" where
  "is_call (Call f) = True"
| "is_call t = False"

section \<open>Worlds of the scenarios\<close>

text \<open>
  The object \<open>{}\<close>, the object \<open>{ exampleOption: 'custom-value' }\<close>, and a table of
  functions that do nothing.
\<close>

definition empty_object :: obj where
  "empty_object = \<lparr>own = Map.empty, inherited = Map.empty, extensible = True\<rparr>"

definition custom_object :: obj where
  "custom_object =
     \<lparr>own = [''exampleOption'' \<mapsto> Data (JSString ''custom-value'') True],
      inherited = Map.empty, extensible = True\<rparr>"

definition no_functions :: "fid \<Rightarrow> jsfun" where
  "no_functions f a args h = (Inr JSUndefined, h)"

text \<open>
  One object at address 0, holding \<open>{ exampleOption: 'custom-value' }\<close> or \<open>{}\<close>, no
  instance yet and an empty console.
\<close>

definition custom_world :: world where
  "custom_world =
     \<lparr>heap = (\<lambda>_. empty_object)(0 := custom_object), funs = no_functions,
      instances = [], console = []\<rparr>"

definition empty_world :: world where
  "empty_world =
     \<lparr>heap = (\<lambda>_. empty_object), funs = no_functions, instances = [], console = []\<rparr>"

text \<open>
  The world of the first scenario once the service has been constructed over the object,
  and that world once \<open>'new-value'\<close> has been written through the service.
\<close>

definition served_world :: world where
  "served_world =
     \<lparr>heap = (\<lambda>_. empty_object)(0 := custom_object), funs = no_functions,
      instances = [\<lparr>injectedConfig = JSObject 0\<rparr>], console = [JSObject 0]\<rparr>"

definition written_world :: world where
  "written_world =
     \<lparr>heap = (\<lambda>_. empty_object)
        (0 := \<lparr>own = [''exampleOption'' \<mapsto> Data (JSString ''new-value'') True],
               inherited = Map.empty, extensible = True\<rparr>),
      funs = no_functions,
      instances = [\<lparr>injectedConfig = JSObject 0\<rparr>], console = [JSObject 0]\<rparr>"

text \<open>
  A world where two instances hold the object at address 0, which has a second key.
\<close>

definition shared_world :: world where
  "shared_world =
     \<lparr>heap = (\<lambda>_. empty_object)
        (0 := \<lparr>own = [''exampleOption'' \<mapsto> Data (JSString ''custom-value'') True,
                      ''otherOption'' \<mapsto> Data (JSNumber 7) True],
               inherited = Map.empty, extensible = True\<rparr>),
      funs = no_functions,
      instances = [\<lparr>injectedConfig = JSObject 0\<rparr>, \<lparr>injectedConfig = JSObject 0\<rparr>],
      console = [JSObject 0, JSObject 0]\<rparr>"

text \<open>
  \<open>Object.freeze({ exampleOption: 'custom-value' })\<close>: the property is read-only and the
  object is not extensible. The worlds hold it at address 0, with no instance, with one
  instance over it, and with two.
\<close>

definition frozen_object :: obj where
  "frozen_object =
     \<lparr>own = [''exampleOption'' \<mapsto> Data (JSString ''custom-value'') False],
      inherited = Map.empty, extensible = False\<rparr>"

definition frozen_world :: world where
  "frozen_world =
     \<lparr>heap = (\<lambda>_. empty_object)(0 := frozen_object), funs = no_functions,
      instances = [], console = []\<rparr>"

definition frozen_served_world :: world where
  "frozen_served_world =
     \<lparr>heap = (\<lambda>_. empty_object)(0 := frozen_object), funs = no_functions,
      instances = [\<lparr>injectedConfig = JSObject 0\<rparr>], console = [JSObject 0]\<rparr>"

definition frozen_shared_world :: world where
  "frozen_shared_world =
     \<lparr>heap = (\<lambda>_. empty_object)(0 := frozen_object), funs = no_functions,
      instances = [\<lparr>injectedConfig = JSObject 0\<rparr>, \<lparr>injectedConfig = JSObject 0\<rparr>],
      console = [JSObject 0, JSObject 0]\<rparr>"

text \<open>
  \<open>{ reads: 0, get exampleOption() { this.reads++; return 'custom-value'; } }\<close>:
  a configuration whose getter counts the reads. The world has one instance over it.
\<close>

definition counting_getter :: jsfun where
  "counting_getter a args h =
     (case own (h a) ''reads'' of
        Some (Data (JSNumber n) wr) \<Rightarrow>
          (Inr (JSString ''custom-value''), store_own h a ''reads'' (JSNumber (n + 1)))
      | _ \<Rightarrow> (Inr (JSString ''custom-value''), h))"

definition counting_world :: world where
  "counting_world =
     \<lparr>heap = (\<lambda>_. empty_object)
        (0 := \<lparr>own = [''exampleOption'' \<mapsto> Accessor (Some 0) None,
                      ''reads'' \<mapsto> Data (JSNumber 0) True],
               inherited = Map.empty, extensible = True\<rparr>),
      funs = (\<lambda>_. counting_getter),
      instances = [\<lparr>injectedConfig = JSObject 0\<rparr>], console = [JSObject 0]\<rparr>"

text \<open>
  \<open>{ otherOption: 7, set exampleOption(v) { this.otherOption = 8; } }\<close>:
  a configuration whose setter writes another key. The world has one instance over it.
\<close>

definition meddling_setter :: jsfun where
  "meddling_setter a args h = (Inr JSUndefined, store_own h a ''otherOption'' (JSNumber 8))"

definition meddling_world :: world where
  "meddling_world =
     \<lparr>heap = (\<lambda>_. empty_object)
        (0 := \<lparr>own = [''exampleOption'' \<mapsto> Accessor None (Some 0),
                      ''otherOption'' \<mapsto> Data (JSNumber 7) True],
               inherited = Map.empty, extensible = True\<rparr>),
      funs = (\<lambda>_. meddling_setter),
      instances = [\<lparr>injectedConfig = JSObject 0\<rparr>], console = [JSObject 0]\<rparr>"

section \<open>Basic facts\<close>

lemma this_injectedConfig_new:
  "ExampleService_new c w = (this, w1) \<Longrightarrow> this_injectedConfig w1 this = c"
  by (auto simp: ExampleService_new_def this_injectedConfig_def Let_def)

lemma heap_new:
  "ExampleService_new c w = (this, w1) \<Longrightarrow> heap w1 = heap w"
  by (auto simp: ExampleService_new_def Let_def)

lemma this_injectedConfig_heap [simp]:
  "this_injectedConfig (w\<lparr>heap := h\<rparr>) this = this_injectedConfig w this"
  by (simp add: this_injectedConfig_def)

text \<open>The accessors write the heap and nothing else.\<close>

lemma get_frame:
  "instances (snd (exampleOption_get this w)) = instances w"
  "console (snd (exampleOption_get this w)) = console w"
  "funs (snd (exampleOption_get this w)) = funs w"
  by (simp_all add: exampleOption_get_def case_prod_unfold)

lemma set_frame:
  "instances (snd (exampleOption_set this v w)) = instances w"
  "console (snd (exampleOption_set this v w)) = console w"
  "funs (snd (exampleOption_set this v w)) = funs w"
  by (simp_all add: exampleOption_set_def case_prod_unfold)

lemma invoke_frame:
  "instances (snd (invoke this c w)) = instances w"
  "console (snd (invoke this c w)) = console w"
  by (cases c; simp add: get_frame set_frame getExampleOption_def case_prod_unfold)+

lemma invoke_all_frame:
  "instances (snd (invoke_all cs w)) = instances w \<and> console (snd (invoke_all cs w)) = console w"
proof (induction cs arbitrary: w)
  case Nil
  then show ?case by simp
next
  case (Cons x cs)
  obtain this c where x: "x = (this, c)" by (cases x)
  show ?case
    using Cons.IH [of "snd (invoke this c w)"] invoke_frame [of this c w]
    by (simp add: x case_prod_unfold)
qed

lemma this_injectedConfig_invoke_all:
  "this_injectedConfig (snd (invoke_all cs w)) this = this_injectedConfig w this"
  by (simp add: this_injectedConfig_def invoke_all_frame)

text \<open>Reading a data property, and a property the object does not have.\<close>

lemma get_on_data:
  assumes "this_injectedConfig w this = JSObject a"
    and "lookup_property (heap w a) ''exampleOption'' = Some (Data v wr)"
  shows "exampleOption_get this w = (Inr v, w)"
  using assms by (simp add: exampleOption_get_def object_get_def)

lemma get_on_missing:
  assumes "this_injectedConfig w this = JSObject a"
    and "lookup_property (heap w a) ''exampleOption'' = None"
  shows "exampleOption_get this w = (Inr JSUndefined, w)"
  using assms by (simp add: exampleOption_get_def object_get_def)

text \<open>An assignment that stores, and what a lookup finds afterwards.\<close>

lemma set_on_store:
  assumes "this_injectedConfig w this = JSObject a"
    and "assignment_target (heap w a) ''exampleOption'' = Store"
  shows "exampleOption_set this v w
     = (Inr (), w\<lparr>heap := store_own (heap w) a ''exampleOption'' v\<rparr>)"
  using assms by (simp add: exampleOption_set_def object_set_def)

lemma lookup_store_own:
  "lookup_property (store_own h a k v a) k = Some (Data v True)"
  by (simp add: lookup_property_def store_own_def)

text \<open>
  When the assignment stores: the key is a writable own data property, or it is not an own
  property, the object is extensible and what is inherited, if anything, is a writable data
  property.
\<close>

lemma assignment_target_Store_iff:
  "assignment_target ob k = Store \<longleftrightarrow>
     (\<exists>v. own ob k = Some (Data v True))
     \<or> (own ob k = None \<and> extensible ob
        \<and> (inherited ob k = None \<or> (\<exists>v. inherited ob k = Some (Data v True))))"
proof (cases "own ob k")
  case None
  show ?thesis
  proof (cases "inherited ob k")
    case None
    with \<open>own ob k = None\<close> show ?thesis by (simp add: assignment_target_def)
  next
    case (Some p)
    with \<open>own ob k = None\<close> show ?thesis
      by (cases p rule: property_target.cases) (simp_all add: assignment_target_def)
  qed
next
  case (Some p)
  then show ?thesis
    by (cases p rule: property_target.cases) (simp_all add: assignment_target_def)
qed

lemma accessors_on_absent:
  assumes "this_injectedConfig w this = JSNull \<or> this_injectedConfig w this = JSUndefined"
  shows "exampleOption_get this w = (Inl TypeError, w)"
    and "exampleOption_set this v w = (Inl TypeError, w)"
    and "getExampleOption this w = (Inl TypeError, w)"
  using assms by (auto simp: exampleOption_get_def exampleOption_set_def getExampleOption_def)

section \<open>Reading\<close>

text \<open>
  C1 (read-passthrough). For every configuration object whose \<open>exampleOption\<close> field holds
  \<open>v\<close>, constructing the service with it and reading the \<open>exampleOption\<close> property returns
  exactly \<open>v\<close>, untransformed.
\<close>

theorem read_passthrough:
  assumes "lookup_property (heap w a) ''exampleOption'' = Some (Data v wr)"
    and "ExampleService_new (JSObject a) w = (this, w1)"
  shows "fst (exampleOption_get this w1) = Inr v"
proof -
  have "lookup_property (heap w1 a) ''exampleOption'' = Some (Data v wr)"
    using assms(1) heap_new [OF assms(2)] by simp
  then show ?thesis
    using get_on_data [OF this_injectedConfig_new [OF assms(2)]] by simp
qed

theorem read_passthrough_witness:
  "lookup_property (heap custom_world 0) ''exampleOption''
       = Some (Data (JSString ''custom-value'') True)
   \<and> ExampleService_new (JSObject 0) custom_world = (0, served_world)
   \<and> fst (exampleOption_get 0 served_world) = Inr (JSString ''custom-value'')"
proof -
  have h: "lookup_property (heap custom_world 0) ''exampleOption''
       = Some (Data (JSString ''custom-value'') True)"
    by (simp add: custom_world_def custom_object_def lookup_property_def)
  have n: "ExampleService_new (JSObject 0) custom_world = (0, served_world)"
    by (simp add: ExampleService_new_def custom_world_def served_world_def
        this_injectedConfig_def Let_def)
  show ?thesis using h n read_passthrough [OF h n] by simp
qed

text \<open>
  C6. Constructing the service over a present object that has no \<open>exampleOption\<close> key and
  reading the property returns \<open>undefined\<close>; nothing is thrown.
\<close>

theorem read_missing_key:
  assumes "lookup_property (heap w a) ''exampleOption'' = None"
    and "ExampleService_new (JSObject a) w = (this, w1)"
  shows "fst (exampleOption_get this w1) = Inr JSUndefined"
proof -
  have "lookup_property (heap w1 a) ''exampleOption'' = None"
    using assms(1) heap_new [OF assms(2)] by simp
  then show ?thesis
    using get_on_missing [OF this_injectedConfig_new [OF assms(2)]] by simp
qed

theorem read_missing_key_witness:
  "lookup_property (heap empty_world 0) ''exampleOption'' = None
   \<and> ExampleService_new (JSObject 0) empty_world
       = (0, empty_world\<lparr>instances := [\<lparr>injectedConfig = JSObject 0\<rparr>], console := [JSObject 0]\<rparr>)
   \<and> fst (exampleOption_get 0
        (empty_world\<lparr>instances := [\<lparr>injectedConfig = JSObject 0\<rparr>], console := [JSObject 0]\<rparr>))
       = Inr JSUndefined"
proof -
  have h: "lookup_property (heap empty_world 0) ''exampleOption'' = None"
    by (simp add: empty_world_def empty_object_def lookup_property_def)
  have n: "ExampleService_new (JSObject 0) empty_world
       = (0, empty_world\<lparr>instances := [\<lparr>injectedConfig = JSObject 0\<rparr>], console := [JSObject 0]\<rparr>)"
    by (simp add: ExampleService_new_def empty_world_def this_injectedConfig_def Let_def)
  show ?thesis using h n read_missing_key [OF h n] by simp
qed

text \<open>
  C3 (accessor equivalence). In every state of the world and for every receiver, whatever
  configuration it holds, the method \<open>getExampleOption\<close> has the outcome of the
  \<open>exampleOption\<close> getter: the same value or the same error, and the same world afterwards.
\<close>

theorem accessor_equivalence:
  "getExampleOption this w = exampleOption_get this w"
  by (simp add: getExampleOption_def)

text \<open>
  C10. The getter of the second file is the getter of the full service: for every receiver
  and world they have the same outcome, and the two constructors build the same instance.
\<close>

theorem part_000_getter_equal:
  "part_000_exampleOption_get this w = exampleOption_get this w
   \<and> part_000_ExampleService_new c w = ExampleService_new c w"
  by (simp add: part_000_exampleOption_get_def exampleOption_get_def
      part_000_ExampleService_new_def ExampleService_new_def)

text \<open>
  C8, as stated: the read accessors have no side effect in any state in which they succeed.
  It fails when \<open>exampleOption\<close> is an accessor property of the configuration: the read
  runs the configuration's own getter. Over the counting configuration the read succeeds
  and the held object is changed (\<open>reads\<close> goes from 0 to 1).
\<close>

theorem read_accessors_pure_counterexample:
  "this_injectedConfig counting_world 0 = JSObject 0
   \<and> fst (exampleOption_get 0 counting_world) = Inr (JSString ''custom-value'')
   \<and> own (heap counting_world 0) ''reads'' = Some (Data (JSNumber 0) True)
   \<and> own (heap (snd (exampleOption_get 0 counting_world)) 0) ''reads''
       = Some (Data (JSNumber 1) True)
   \<and> snd (exampleOption_get 0 counting_world) \<noteq> counting_world"
proof -
  have held: "this_injectedConfig counting_world 0 = JSObject 0"
    by (simp add: counting_world_def this_injectedConfig_def)
  have before: "own (heap counting_world 0) ''reads'' = Some (Data (JSNumber 0) True)"
    by (simp add: counting_world_def)
  have res: "fst (exampleOption_get 0 counting_world) = Inr (JSString ''custom-value'')"
    by (simp add: exampleOption_get_def this_injectedConfig_def object_get_def
        lookup_property_def counting_world_def counting_getter_def case_prod_unfold)
  have after: "own (heap (snd (exampleOption_get 0 counting_world)) 0) ''reads''
       = Some (Data (JSNumber 1) True)"
    by (simp add: exampleOption_get_def this_injectedConfig_def object_get_def
        lookup_property_def counting_world_def counting_getter_def store_own_def
        case_prod_unfold)
  have "snd (exampleOption_get 0 counting_world) \<noteq> counting_world"
  proof
    assume "snd (exampleOption_get 0 counting_world) = counting_world"
    with after before show False by simp
  qed
  with held res before after show ?thesis by simp
qed

text \<open>
  C8, amended. The read accessors never change the service state (the instances and what
  each holds), the console or the functions. They leave the whole world unchanged, the
  held configuration object included, whenever the read does not run a getter of the
  configuration: that is, unless the held configuration is an object whose \<open>exampleOption\<close>
  is an accessor property with a getter.
\<close>

theorem read_accessors_pure_without_getter:
  "instances (snd (exampleOption_get this w)) = instances w
   \<and> instances (snd (getExampleOption this w)) = instances w
   \<and> (\<not> read_runs_getter (heap w) (this_injectedConfig w this) \<longrightarrow>
        snd (exampleOption_get this w) = w \<and> snd (getExampleOption this w) = w)"
proof -
  have "snd (exampleOption_get this w) = w"
    if "\<not> read_runs_getter (heap w) (this_injectedConfig w this)"
  proof (cases "this_injectedConfig w this")
    case (JSObject a)
    with that have "\<not> has_getter (lookup_property (heap w a) ''exampleOption'')"
      by simp
    then have "get_found (funs w) (heap w) a (lookup_property (heap w a) ''exampleOption'')
        = (fst (get_found (funs w) (heap w) a (lookup_property (heap w a) ''exampleOption'')),
           heap w)"
      by (cases "lookup_property (heap w a) ''exampleOption''" rule: has_getter.cases) simp_all
    then have "snd (read_exampleOption (funs w) (heap w) (JSObject a)) = heap w"
      by (simp add: object_get_def) (metis snd_conv)
    then show ?thesis
      by (simp add: exampleOption_get_def JSObject case_prod_unfold)
  qed (simp_all add: exampleOption_get_def)
  then show ?thesis
    by (simp add: get_frame getExampleOption_def)
qed

theorem read_accessors_pure_without_getter_witness:
  "\<not> read_runs_getter (heap served_world) (this_injectedConfig served_world 0)
   \<and> fst (exampleOption_get 0 served_world) = Inr (JSString ''custom-value'')
   \<and> snd (exampleOption_get 0 served_world) = served_world
   \<and> snd (getExampleOption 0 served_world) = served_world"
proof -
  have h: "\<not> read_runs_getter (heap served_world) (this_injectedConfig served_world 0)"
    by (simp add: served_world_def custom_object_def this_injectedConfig_def
        lookup_property_def)
  have r: "fst (exampleOption_get 0 served_world) = Inr (JSString ''custom-value'')"
    by (simp add: exampleOption_get_def served_world_def custom_object_def
        this_injectedConfig_def object_get_def lookup_property_def)
  show ?thesis
    using h r read_accessors_pure_without_getter [of 0 served_world] by simp
qed

section \<open>Writing\<close>

text \<open>
  C2, as stated: for every configuration object, a write through the setter is what the
  next read returns. It fails on a frozen configuration: the assignment of the setter
  throws a TypeError in strict code, and the read still returns the old value.
\<close>

theorem read_after_write_counterexample:
  "ExampleService_new (JSObject 0) frozen_world = (0, frozen_served_world)
   \<and> exampleOption_set 0 (JSString ''new-value'') frozen_served_world
       = (Inl TypeError, frozen_served_world)
   \<and> fst (exampleOption_get 0 frozen_served_world) = Inr (JSString ''custom-value'')
   \<and> fst (exampleOption_get 0 frozen_served_world) \<noteq> Inr (JSString ''new-value'')"
proof -
  have n: "ExampleService_new (JSObject 0) frozen_world = (0, frozen_served_world)"
    by (simp add: ExampleService_new_def frozen_world_def frozen_served_world_def
        this_injectedConfig_def Let_def)
  have s: "exampleOption_set 0 (JSString ''new-value'') frozen_served_world
       = (Inl TypeError, frozen_served_world)"
    by (simp add: exampleOption_set_def frozen_served_world_def frozen_object_def
        this_injectedConfig_def object_set_def assignment_target_def)
  have g: "fst (exampleOption_get 0 frozen_served_world) = Inr (JSString ''custom-value'')"
    by (simp add: exampleOption_get_def frozen_served_world_def frozen_object_def
        this_injectedConfig_def object_get_def lookup_property_def)
  show ?thesis using n s g by simp
qed

text \<open>
  C2, amended (read-after-write). For every configuration object on which the assignment
  to \<open>exampleOption\<close> stores (the key is a writable own data property, or it is not an own
  property, the object is extensible and nothing inherited is read-only or an accessor) and
  every value \<open>v2\<close>: constructing the service over the object, writing \<open>v2\<close> through the
  setter and then reading, through the getter or through \<open>getExampleOption\<close>, returns
  exactly \<open>v2\<close>. The write succeeds and the very next read sees it.
\<close>

theorem read_after_write_stored:
  assumes "assignment_target (heap w a) ''exampleOption'' = Store"
    and "ExampleService_new (JSObject a) w = (this, w1)"
    and "exampleOption_set this v2 w1 = (r, w2)"
  shows "r = Inr ()
       \<and> fst (exampleOption_get this w2) = Inr v2
       \<and> fst (getExampleOption this w2) = Inr v2"
proof -
  have held: "this_injectedConfig w1 this = JSObject a"
    by (rule this_injectedConfig_new [OF assms(2)])
  have stores: "assignment_target (heap w1 a) ''exampleOption'' = Store"
    using assms(1) heap_new [OF assms(2)] by simp
  have w2: "w2 = w1\<lparr>heap := store_own (heap w1) a ''exampleOption'' v2\<rparr>"
    and r: "r = Inr ()"
    using assms(3) set_on_store [OF held stores, of v2] by simp_all
  have held2: "this_injectedConfig w2 this = JSObject a"
    using held by (simp add: w2)
  have "lookup_property (heap w2 a) ''exampleOption'' = Some (Data v2 True)"
    by (simp add: w2 lookup_store_own)
  then have "exampleOption_get this w2 = (Inr v2, w2)"
    by (rule get_on_data [OF held2])
  then show ?thesis
    using r by (simp add: getExampleOption_def)
qed

theorem read_after_write_stored_witness:
  "assignment_target (heap custom_world 0) ''exampleOption'' = Store
   \<and> ExampleService_new (JSObject 0) custom_world = (0, served_world)
   \<and> exampleOption_set 0 (JSString ''new-value'') served_world = (Inr (), written_world)
   \<and> fst (exampleOption_get 0 written_world) = Inr (JSString ''new-value'')
   \<and> fst (getExampleOption 0 written_world) = Inr (JSString ''new-value'')"
proof -
  have t: "assignment_target (heap custom_world 0) ''exampleOption'' = Store"
    by (simp add: custom_world_def custom_object_def assignment_target_def)
  have n: "ExampleService_new (JSObject 0) custom_world = (0, served_world)"
    by (simp add: ExampleService_new_def custom_world_def served_world_def
        this_injectedConfig_def Let_def)
  have s: "exampleOption_set 0 (JSString ''new-value'') served_world = (Inr (), written_world)"
    by (simp add: exampleOption_set_def served_world_def written_world_def custom_object_def
        this_injectedConfig_def object_set_def assignment_target_def store_own_def)
  show ?thesis using t n s read_after_write_stored [OF t n s] by simp
qed

text \<open>
  C5, as stated: when two instances hold the same configuration object, a write through
  one is what the other reads. It fails when the shared object is frozen: the write throws
  a TypeError and the second instance still reads the old value.
\<close>

theorem shared_mutation_visible_counterexample:
  "this_injectedConfig frozen_shared_world 0 = JSObject 0
   \<and> this_injectedConfig frozen_shared_world 1 = JSObject 0
   \<and> fst (exampleOption_set 0 (JSString ''new-value'') frozen_shared_world) = Inl TypeError
   \<and> fst (exampleOption_get 1
        (snd (exampleOption_set 0 (JSString ''new-value'') frozen_shared_world)))
       = Inr (JSString ''custom-value'')
   \<and> fst (exampleOption_get 1
        (snd (exampleOption_set 0 (JSString ''new-value'') frozen_shared_world)))
       \<noteq> Inr (JSString ''new-value'')"
proof -
  have h0: "this_injectedConfig frozen_shared_world 0 = JSObject 0"
    by (simp add: frozen_shared_world_def this_injectedConfig_def)
  have h1: "this_injectedConfig frozen_shared_world 1 = JSObject 0"
    by (simp add: frozen_shared_world_def this_injectedConfig_def)
  have s: "exampleOption_set 0 (JSString ''new-value'') frozen_shared_world
       = (Inl TypeError, frozen_shared_world)"
    by (simp add: exampleOption_set_def frozen_shared_world_def frozen_object_def
        this_injectedConfig_def object_set_def assignment_target_def)
  have g: "fst (exampleOption_get 1 frozen_shared_world) = Inr (JSString ''custom-value'')"
    by (simp add: exampleOption_get_def frozen_shared_world_def frozen_object_def
        this_injectedConfig_def object_get_def lookup_property_def)
  show ?thesis using h0 h1 s g by simp
qed

text \<open>
  C5, amended (shared-mutation visibility). When two instances hold the same configuration
  object and the assignment to its \<open>exampleOption\<close> stores (as in C2), a write through the
  setter of one succeeds and is what the read accessors of the other return: the setter
  changes the shared object, not a copy.
\<close>

theorem shared_mutation_visible_stored:
  assumes "this_injectedConfig w this1 = JSObject a"
    and "this_injectedConfig w this2 = JSObject a"
    and "assignment_target (heap w a) ''exampleOption'' = Store"
  shows "fst (exampleOption_set this1 v w) = Inr ()
       \<and> fst (exampleOption_get this2 (snd (exampleOption_set this1 v w))) = Inr v
       \<and> fst (getExampleOption this2 (snd (exampleOption_set this1 v w))) = Inr v"
proof -
  let ?w' = "w\<lparr>heap := store_own (heap w) a ''exampleOption'' v\<rparr>"
  have set: "exampleOption_set this1 v w = (Inr (), ?w')"
    by (rule set_on_store [OF assms(1) assms(3)])
  have held: "this_injectedConfig ?w' this2 = JSObject a"
    using assms(2) by simp
  have "lookup_property (heap ?w' a) ''exampleOption'' = Some (Data v True)"
    by (simp add: lookup_store_own)
  then have "exampleOption_get this2 ?w' = (Inr v, ?w')"
    by (rule get_on_data [OF held])
  then show ?thesis
    by (simp add: set getExampleOption_def)
qed

theorem shared_mutation_visible_stored_witness:
  "ExampleService_new (JSObject 0) served_world
     = (1, served_world\<lparr>instances := instances served_world @ [\<lparr>injectedConfig = JSObject 0\<rparr>],
                        console := console served_world @ [JSObject 0]\<rparr>)
   \<and> this_injectedConfig
        (served_world\<lparr>instances := instances served_world @ [\<lparr>injectedConfig = JSObject 0\<rparr>],
                      console := console served_world @ [JSObject 0]\<rparr>) 0 = JSObject 0
   \<and> this_injectedConfig
        (served_world\<lparr>instances := instances served_world @ [\<lparr>injectedConfig = JSObject 0\<rparr>],
                      console := console served_world @ [JSObject 0]\<rparr>) 1 = JSObject 0
   \<and> assignment_target (heap
        (served_world\<lparr>instances := instances served_world @ [\<lparr>injectedConfig = JSObject 0\<rparr>],
                      console := console served_world @ [JSObject 0]\<rparr>) 0) ''exampleOption''
       = Store
   \<and> fst (exampleOption_get 1 (snd (exampleOption_set 0 (JSString ''new-value'')
        (served_world\<lparr>instances := instances served_world @ [\<lparr>injectedConfig = JSObject 0\<rparr>],
                      console := console served_world @ [JSObject 0]\<rparr>))))
       = Inr (JSString ''new-value'')"
proof -
  let ?w = "served_world\<lparr>instances := instances served_world @ [\<lparr>injectedConfig = JSObject 0\<rparr>],
                         console := console served_world @ [JSObject 0]\<rparr>"
  have n: "ExampleService_new (JSObject 0) served_world = (1, ?w)"
    by (simp add: ExampleService_new_def served_world_def this_injectedConfig_def Let_def)
  have h0: "this_injectedConfig ?w 0 = JSObject 0"
    by (simp add: served_world_def this_injectedConfig_def)
  have h1: "this_injectedConfig ?w 1 = JSObject 0"
    by (simp add: served_world_def this_injectedConfig_def)
  have t: "assignment_target (heap ?w 0) ''exampleOption'' = Store"
    by (simp add: served_world_def custom_object_def assignment_target_def)
  show ?thesis
    using n h0 h1 t shared_mutation_visible_stored [OF h0 h1 t, of "JSString ''new-value''"]
    by simp
qed

text \<open>
  C9, as stated: for every present configuration object the setter changes only the
  \<open>exampleOption\<close> key. It fails when \<open>exampleOption\<close> is an accessor property of the
  configuration: the assignment runs the configuration's own setter, which here changes
  \<open>otherOption\<close> from 7 to 8.
\<close>

theorem setter_frame_counterexample:
  "this_injectedConfig meddling_world 0 = JSObject 0
   \<and> ''otherOption'' \<noteq> ''exampleOption''
   \<and> fst (exampleOption_set 0 (JSString ''new-value'') meddling_world) = Inr ()
   \<and> own (heap meddling_world 0) ''otherOption'' = Some (Data (JSNumber 7) True)
   \<and> own (heap (snd (exampleOption_set 0 (JSString ''new-value'') meddling_world)) 0)
        ''otherOption'' = Some (Data (JSNumber 8) True)"
proof -
  have held: "this_injectedConfig meddling_world 0 = JSObject 0"
    by (simp add: meddling_world_def this_injectedConfig_def)
  have before: "own (heap meddling_world 0) ''otherOption'' = Some (Data (JSNumber 7) True)"
    by (simp add: meddling_world_def)
  have res: "fst (exampleOption_set 0 (JSString ''new-value'') meddling_world) = Inr ()"
    by (simp add: exampleOption_set_def this_injectedConfig_def object_set_def
        assignment_target_def meddling_world_def meddling_setter_def case_prod_unfold)
  have after: "own (heap (snd (exampleOption_set 0 (JSString ''new-value'') meddling_world)) 0)
        ''otherOption'' = Some (Data (JSNumber 8) True)"
    by (simp add: exampleOption_set_def this_injectedConfig_def object_set_def
        assignment_target_def meddling_world_def meddling_setter_def store_own_def
        case_prod_unfold)
  show ?thesis using held before res after by simp
qed

text \<open>
  C9, amended. For every present configuration object on which the assignment to
  \<open>exampleOption\<close> does not call a setter (the key is not an accessor property with a
  setter, own or inherited), and every written value, the setter of the service changes at
  most the \<open>exampleOption\<close> key of the object: every other key, own or inherited, keeps its
  property or stays absent.
\<close>

theorem setter_frame_without_setter:
  assumes "this_injectedConfig w this = JSObject a"
    and "\<not> is_call (assignment_target (heap w a) ''exampleOption'')"
    and "k \<noteq> ''exampleOption''"
  shows "own (heap (snd (exampleOption_set this v w)) a) k = own (heap w a) k
       \<and> inherited (heap (snd (exampleOption_set this v w)) a) k = inherited (heap w a) k"
proof (cases "assignment_target (heap w a) ''exampleOption''")
  case Store
  then show ?thesis
    using assms(3) by (simp add: set_on_store [OF assms(1)] store_own_def)
next
  case Refuse
  then show ?thesis
    by (simp add: exampleOption_set_def assms(1) object_set_def)
next
  case (Call f)
  with assms(2) show ?thesis by simp
qed

theorem setter_frame_without_setter_witness:
  "this_injectedConfig shared_world 0 = JSObject 0
   \<and> \<not> is_call (assignment_target (heap shared_world 0) ''exampleOption'')
   \<and> ''otherOption'' \<noteq> ''exampleOption''
   \<and> own (heap (snd (exampleOption_set 0 (JSString ''new-value'') shared_world)) 0)
        ''otherOption'' = Some (Data (JSNumber 7) True)"
proof -
  have h: "this_injectedConfig shared_world 0 = JSObject 0"
    by (simp add: shared_world_def this_injectedConfig_def)
  have t: "\<not> is_call (assignment_target (heap shared_world 0) ''exampleOption'')"
    by (simp add: shared_world_def assignment_target_def)
  have k: "''otherOption'' \<noteq> ''exampleOption''"
    by simp
  have "own (heap shared_world 0) ''otherOption'' = Some (Data (JSNumber 7) True)"
    by (simp add: shared_world_def)
  then show ?thesis
    using h t k setter_frame_without_setter [OF h t k, of "JSString ''new-value''"] by simp
qed

section \<open>The held reference\<close>

text \<open>
  C7. The configuration reference an instance holds is fixed at construction: whatever
  sequence of reads and writes callers make afterwards, on whichever instances, every
  instance holds the value it held before (the same reference, or the same absence). Only
  the heap, where the referenced objects live, can differ.
\<close>

theorem held_reference_fixed:
  "instances (snd (invoke_all cs w)) = instances w
   \<and> this_injectedConfig (snd (invoke_all cs w)) this = this_injectedConfig w this
   \<and> console (snd (invoke_all cs w)) = console w"
  by (simp add: invoke_all_frame this_injectedConfig_invoke_all)

section \<open>The missing configuration\<close>

text \<open>
  C4. When the service is constructed with \<open>null\<close> or \<open>undefined\<close>, every invocation of
  every accessor (the getter, the setter with any value, \<open>getExampleOption\<close>) throws the
  TypeError of the access on an absent object, which reaches the caller as it is; and it
  does so every time, after any sequence of earlier accessor calls on any instances.
\<close>

theorem absent_configuration_raises:
  assumes "c = JSNull \<or> c = JSUndefined"
    and "ExampleService_new c w = (this, w1)"
  shows "fst (exampleOption_get this (snd (invoke_all cs w1))) = Inl TypeError
       \<and> fst (exampleOption_set this v (snd (invoke_all cs w1))) = Inl TypeError
       \<and> fst (getExampleOption this (snd (invoke_all cs w1))) = Inl TypeError"
proof -
  have "this_injectedConfig (snd (invoke_all cs w1)) this = c"
    using this_injectedConfig_new [OF assms(2)] by (simp add: this_injectedConfig_invoke_all)
  then have absent: "this_injectedConfig (snd (invoke_all cs w1)) this = JSNull
      \<or> this_injectedConfig (snd (invoke_all cs w1)) this = JSUndefined"
    using assms(1) by simp
  show ?thesis
    by (simp add: accessors_on_absent [OF absent])
qed

theorem absent_configuration_raises_witness:
  "(JSNull = JSNull \<or> JSNull = JSUndefined)
   \<and> ExampleService_new JSNull empty_world
       = (0, empty_world\<lparr>instances := [\<lparr>injectedConfig = JSNull\<rparr>], console := [JSNull]\<rparr>)
   \<and> fst (invoke_all [(0, Read), (0, Write (JSString ''new-value'')), (0, ReadMethod)]
        (empty_world\<lparr>instances := [\<lparr>injectedConfig = JSNull\<rparr>], console := [JSNull]\<rparr>))
       = [Inl TypeError, Inl TypeError, Inl TypeError]
   \<and> fst (exampleOption_get 0
        (snd (invoke_all [(0, Read), (0, Write (JSString ''new-value'')), (0, ReadMethod)]
          (empty_world\<lparr>instances := [\<lparr>injectedConfig = JSNull\<rparr>], console := [JSNull]\<rparr>))))
       = Inl TypeError"
proof -
  let ?w1 = "empty_world\<lparr>instances := [\<lparr>injectedConfig = JSNull\<rparr>], console := [JSNull]\<rparr>"
  have c: "JSNull = JSNull \<or> JSNull = JSUndefined"
    by simp
  have n: "ExampleService_new JSNull empty_world = (0, ?w1)"
    by (simp add: ExampleService_new_def empty_world_def this_injectedConfig_def Let_def)
  have run: "fst (invoke_all [(0, Read), (0, Write (JSString ''new-value'')), (0, ReadMethod)] ?w1)
      = [Inl TypeError, Inl TypeError, Inl TypeError]"
    by (simp add: exampleOption_get_def exampleOption_set_def getExampleOption_def
        empty_world_def this_injectedConfig_def)
  show ?thesis
    using c n run
      absent_configuration_raises [OF c n,
        of "[(0, Read), (0, Write (JSString ''new-value'')), (0, ReadMethod)]"]
    by simp
qed

end
